theory Spec2Isabelle
  imports Complex_Main "HOL-Library.Product_Lexorder" "HOL-Library.Multiset"
begin

section \<open>Values of the program\<close>

text \<open>
  The review service of \<^verbatim>\<open>src/server.py\<close> is one WSGI callable,
  \<^verbatim>\<open>ReviewAnalyzerServer.__call__\<close>, over one piece of state, the list
  \<^verbatim>\<open>self.reviews\<close>. Python strings are modelled as \<^typ>\<open>string\<close> (the bytes of
  their UTF-8 encoding), Python exceptions as values of \<open>exn\<close>, and a computation that may
  raise as a value of \<open>exn + 'a\<close> with \<open>Inl\<close> the raised exception.
\<close>

text \<open>An exception: its class, as far as the handlers of the source tell classes apart
  (\<^verbatim>\<open>json.JSONDecodeError\<close> against every other \<^verbatim>\<open>Exception\<close>), and the text of
  \<^verbatim>\<open>str(ex)\<close>.\<close>

datatype exn =
    KeyError string
  | IndexError string
  | ValueError string
  | JSONDecodeError string
  | OtherError string

fun str_of :: "exn \<Rightarrow> string" where
  "str_of (KeyError m) = m"
| "str_of (IndexError m) = m"
| "str_of (ValueError m) = m"
| "str_of (JSONDecodeError m) = m"
| "str_of (OtherError m) = m"

fun is_JSONDecodeError :: "exn \<Rightarrow> bool" where
  "is_JSONDecodeError (JSONDecodeError m) = True"
| "is_JSONDecodeError _ = False"

text \<open>A row of \<^verbatim>\<open>self.reviews\<close>: a dict with the four string columns of the data set.\<close>

record review =
  ReviewId :: string
  Location :: string
  Timestamp :: string
  ReviewBody :: string

text \<open>The dict returned by \<^verbatim>\<open>sia.polarity_scores\<close>; its floats are read as reals.\<close>

record sentiment =
  neg :: real
  neu :: real
  pos :: real
  compound :: real

text \<open>An element of \<^verbatim>\<open>updated_reviews\<close> (lines 103-109): the review and its score.\<close>

record scored_review =
  sr_ReviewId :: string
  sr_Location :: string
  sr_Timestamp :: string
  sr_ReviewBody :: string
  sr_sentiment :: sentiment

text \<open>The Python value handed to \<^verbatim>\<open>json.dumps\<close>; a dict keeps its insertion order.\<close>

datatype json =
    JStr string
  | JNum real
  | JArr "json list"
  | JObj "(string \<times> json) list"

text \<open>What \<^verbatim>\<open>start_response\<close> and the returned body carry: the status line and the value
  serialised by \<^verbatim>\<open>json.dumps\<close>. Every response of the source has the header
  \<^verbatim>\<open>Content-Type: application/json\<close>; headers are not modelled.\<close>

record response =
  status :: string
  body :: json

text \<open>A naive \<^verbatim>\<open>datetime\<close> without its microseconds, which neither format of the
  source reads or prints.\<close>

record datetime =
  year :: nat
  month :: nat
  day :: nat
  hour :: nat
  minute :: nat
  second :: nat

definition dt_tuple :: "datetime \<Rightarrow> nat \<times> nat \<times> nat \<times> nat \<times> nat \<times> nat" where
  "dt_tuple d = (year d, month d, day d, hour d, minute d, second d)"

text \<open>Comparison of two naive datetimes is lexicographic on their fields.\<close>

definition dt_le :: "datetime \<Rightarrow> datetime \<Rightarrow> bool" where
  "dt_le a b = (dt_tuple a \<le> dt_tuple b)"

section \<open>Library functions the source calls\<close>

subsection \<open>Functions taken as parameters\<close>

text \<open>
  Four functions the handler calls are parameters of the model, and every property below is
  proved for whatever they return:
  \<^item> \<open>unquote\<close>, the percent-decoding \<^verbatim>\<open>urllib.parse.unquote\<close> that \<^verbatim>\<open>parse_qs\<close>
    applies to each name and value (it decodes the escaped bytes as UTF-8 and replaces
    ill-formed sequences);
  \<^item> \<open>py_int\<close>, the conversion \<^verbatim>\<open>int(text)\<close>, which accepts the white space and the
    decimal digits of the Unicode tables of the interpreter;
  \<^item> \<open>strptime\<close>, \<^verbatim>\<open>datetime.strptime(text, format)\<close>, whose regular expressions use the
    same tables;
  \<^item> \<open>polarity_scores\<close>, the analyser \<^verbatim>\<open>sia.polarity_scores\<close> of NLTK.
\<close>

record library =
  unquote :: "string \<Rightarrow> string"
  py_int :: "string \<Rightarrow> exn + int"
  strptime :: "string \<Rightarrow> string \<Rightarrow> exn + datetime"
  polarity_scores :: "string \<Rightarrow> sentiment"

subsection \<open>\<^verbatim>\<open>urllib.parse.parse_qs\<close>\<close>

text \<open>\<^verbatim>\<open>str.split(sep)\<close> for a one-character separator.\<close>

fun split_on :: "char \<Rightarrow> string \<Rightarrow> string list" where
  "split_on c [] = [[]]"
| "split_on c (x # xs) =
     (if x = c then [] # split_on c xs
      else (case split_on c xs of
              [] \<Rightarrow> [[x]]
            | f # fs \<Rightarrow> (x # f) # fs))"

text \<open>\<^verbatim>\<open>str.split(sep, 1)\<close>: \<open>None\<close> where the separator does not occur (a list of
  one element in Python), else the text before and after its first occurrence.\<close>

fun split_first :: "char \<Rightarrow> string \<Rightarrow> (string \<times> string) option" where
  "split_first c [] = None"
| "split_first c (x # xs) =
     (if x = c then Some ([], xs)
      else map_option (\<lambda>(a, b). (x # a, b)) (split_first c xs))"

definition plus_to_space :: "string \<Rightarrow> string" where
  "plus_to_space s = map (\<lambda>c. if c = CHR ''+'' then CHR 0x20 else c) s"

text \<open>One pass of the loop of \<^verbatim>\<open>parse_qsl\<close> over a field \<^verbatim>\<open>name_value\<close>, with
  \<^verbatim>\<open>keep_blank_values=False\<close> and \<^verbatim>\<open>strict_parsing=False\<close>: an empty field, a field
  without \<^verbatim>\<open>=\<close> and a field with an empty value are skipped; the test for the empty
  value comes before the decoding.\<close>

definition parse_field :: "(string \<Rightarrow> string) \<Rightarrow> string \<Rightarrow> (string \<times> string) list" where
  "parse_field unq name_value =
     (if name_value = [] then []
      else case split_first CHR ''='' name_value of
             None \<Rightarrow> []
           | Some (n, v) \<Rightarrow>
               if v = [] then []
               else [(unq (plus_to_space n), unq (plus_to_space v))])"

definition parse_qsl :: "(string \<Rightarrow> string) \<Rightarrow> string \<Rightarrow> (string \<times> string) list" where
  "parse_qsl unq qs = concat (map (parse_field unq) (split_on CHR ''&'' qs))"

text \<open>The loop of \<^verbatim>\<open>parse_qs\<close>: a name seen before gets the value appended, a new name
  starts a list of one value.\<close>

definition add_pair :: "(string \<rightharpoonup> string list) \<Rightarrow> string \<times> string \<Rightarrow> (string \<rightharpoonup> string list)" where
  "add_pair parsed_result nv =
     (case parsed_result (fst nv) of
        Some vs \<Rightarrow> parsed_result(fst nv \<mapsto> vs @ [snd nv])
      | None \<Rightarrow> parsed_result(fst nv \<mapsto> [snd nv]))"

definition parse_qs :: "(string \<Rightarrow> string) \<Rightarrow> string \<Rightarrow> (string \<rightharpoonup> string list)" where
  "parse_qs unq qs = foldl add_pair Map.empty (parse_qsl unq qs)"

text \<open>\<^verbatim>\<open>query.get(key, [None])[0]\<close>: \<open>None\<close> for a missing key, the first value of a
  present one, and the \<^verbatim>\<open>IndexError\<close> of \<^verbatim>\<open>[][0]\<close>.\<close>

definition first_value :: "(string \<rightharpoonup> string list) \<Rightarrow> string \<Rightarrow> exn + string option" where
  "first_value query key =
     (case query key of
        None \<Rightarrow> Inr None
      | Some [] \<Rightarrow> Inl (IndexError ''list index out of range'')
      | Some (v # vs) \<Rightarrow> Inr (Some v))"

text \<open>The truth value of \<^verbatim>\<open>None\<close> or a string in \<^verbatim>\<open>if location:\<close>.\<close>

definition truthy :: "string option \<Rightarrow> bool" where
  "truthy v = (case v of None \<Rightarrow> False | Some s \<Rightarrow> s \<noteq> [])"

subsection \<open>\<^verbatim>\<open>strftime\<close>\<close>

definition digit_char :: "nat \<Rightarrow> char" where
  "digit_char n = ''0123456789'' ! (n mod 10)"

definition pad2 :: "nat \<Rightarrow> string" where
  "pad2 n = [digit_char (n div 10), digit_char n]"

function dec :: "nat \<Rightarrow> string" where
  "dec n = (if n < 10 then [digit_char n] else dec (n div 10) @ [digit_char n])"
  by pat_completeness auto
termination
  by (relation "measure id") auto

declare dec.simps [simp del]

definition is_leap :: "nat \<Rightarrow> bool" where
  "is_leap y = (y mod 4 = 0 \<and> (y mod 100 \<noteq> 0 \<or> y mod 400 = 0))"

definition days_in_month :: "nat \<Rightarrow> nat \<Rightarrow> nat" where
  "days_in_month y m =
     (if m = 2 then (if is_leap y then 29 else 28)
      else if m \<in> {4, 6, 9, 11} then 30 else 31)"


text \<open>\<^verbatim>\<open>strftime("%Y-%m-%d %H:%M:%S")\<close>: the year in decimal (four digits from the year
  1000 on), the other fields on two digits.\<close>

definition strftime :: "datetime \<Rightarrow> string" where
  "strftime d =
     dec (year d) @ ''-'' @ pad2 (month d) @ ''-'' @ pad2 (day d) @ '' ''
     @ pad2 (hour d) @ '':'' @ pad2 (minute d) @ '':'' @ pad2 (second d)"

subsection \<open>\<^verbatim>\<open>sorted(..., reverse=True)\<close>\<close>

text \<open>Python sorts with \<^verbatim>\<open>reverse=True\<close> by reversing the list, sorting it stably in
  ascending order of the key, and reversing the result.\<close>

definition sorted_reverse :: "('a \<Rightarrow> real) \<Rightarrow> 'a list \<Rightarrow> 'a list" where
  "sorted_reverse key xs = rev (sort_key key (rev xs))"

section \<open>The server\<close>

definition TIMESTAMP_FORMAT :: string where
  "TIMESTAMP_FORMAT = ''%Y-%m-%d %H:%M:%S''"

definition ALLOWED_LOCATIONS :: "string set" where
  "ALLOWED_LOCATIONS = set
     [''Albuquerque, New Mexico'',
      ''Carlsbad, California'',
      ''Chula Vista, California'',
      ''Colorado Springs, Colorado'',
      ''Denver, Colorado'',
      ''El Cajon, California'',
      ''El Paso, Texas'',
      ''Escondido, California'',
      ''Fresno, California'',
      ''La Mesa, California'',
      ''Las Vegas, Nevada'',
      ''Los Angeles, California'',
      ''Oceanside, California'',
      ''Phoenix, Arizona'',
      ''Sacramento, California'',
      ''Salt Lake City, Utah'',
      ''Salt Lake City, Utah'',
      ''San Diego, California'',
      ''Tucson, Arizona'']"

text \<open>
  The entries of \<^verbatim>\<open>environ\<close> the handler reads; \<open>None\<close> is a missing key. The server
  of line 175, \<^verbatim>\<open>wsgiref.simple_server\<close>, sets \<^verbatim>\<open>REQUEST_METHOD\<close> and
  \<^verbatim>\<open>QUERY_STRING\<close> for every request (the latter to the empty string for a URL without
  \<^verbatim>\<open>?\<close>) and \<^verbatim>\<open>CONTENT_LENGTH\<close> for a request that has the header.
  \<^verbatim>\<open>wsgi.input\<close> is the request body as the handler sees it: the function gives, for the
  length asked, the outcome of \<^verbatim>\<open>.read(content_length).decode("utf-8")\<close>, the text or
  the exception raised by the read or by the decoding.
\<close>

record environ =
  REQUEST_METHOD :: "string option"
  QUERY_STRING :: "string option"
  CONTENT_LENGTH :: "string option"
  wsgi_input :: "(int \<Rightarrow> exn + string) option"

text \<open>What a request draws from outside the program: the text of \<^verbatim>\<open>str(uuid.uuid4())\<close>
  and the clock read by \<^verbatim>\<open>datetime.now()\<close>.\<close>

record world =
  uuid4 :: string
  now :: datetime

definition error_body :: "string \<Rightarrow> json" where
  "error_body msg = JObj [(''error'', JStr msg)]"

text \<open>The f-string \<^verbatim>\<open>f"'{location}' is not an allowed location."\<close>.\<close>

definition not_allowed_message :: "string \<Rightarrow> string" where
  "not_allowed_message location = [CHR 0x27] @ location @ [CHR 0x27] @ '' is not an allowed location.''"

definition sentiment_json :: "sentiment \<Rightarrow> json" where
  "sentiment_json s =
     JObj [(''neg'', JNum (neg s)), (''neu'', JNum (neu s)),
           (''pos'', JNum (pos s)), (''compound'', JNum (compound s))]"

text \<open>The dict of lines 103-109, keys in the order of the source.\<close>

definition scored_json :: "scored_review \<Rightarrow> json" where
  "scored_json x =
     JObj [(''ReviewId'', JStr (sr_ReviewId x)),
           (''Location'', JStr (sr_Location x)),
           (''Timestamp'', JStr (sr_Timestamp x)),
           (''ReviewBody'', JStr (sr_ReviewBody x)),
           (''sentiment'', sentiment_json (sr_sentiment x))]"

text \<open>The dict \<^verbatim>\<open>new_review\<close> of lines 142-147.\<close>

definition review_json :: "review \<Rightarrow> json" where
  "review_json r =
     JObj [(''ReviewId'', JStr (ReviewId r)),
           (''ReviewBody'', JStr (ReviewBody r)),
           (''Location'', JStr (Location r)),
           (''Timestamp'', JStr (Timestamp r))]"

text \<open>\<^verbatim>\<open>analyze_sentiment\<close>, lines 58-60.\<close>

definition analyze_sentiment :: "library \<Rightarrow> string \<Rightarrow> sentiment" where
  "analyze_sentiment lib review_body = polarity_scores lib review_body"

text \<open>A list comprehension whose condition may raise: the first exception ends it.\<close>

fun filter_exn :: "('a \<Rightarrow> exn + bool) \<Rightarrow> 'a list \<Rightarrow> exn + 'a list" where
  "filter_exn p [] = Inr []"
| "filter_exn p (x # xs) =
     (case p x of
        Inl e \<Rightarrow> Inl e
      | Inr b \<Rightarrow>
          (case filter_exn p xs of
             Inl e \<Rightarrow> Inl e
           | Inr ys \<Rightarrow> Inr (if b then x # ys else ys)))"

text \<open>Line 84.\<close>

definition filter_location :: "string option \<Rightarrow> review list \<Rightarrow> review list" where
  "filter_location location filtered_reviews =
     (if truthy location
      then filter (\<lambda>review. Location review = the location) filtered_reviews
      else filtered_reviews)"

text \<open>Lines 86-91.\<close>

definition filter_start_date :: "library \<Rightarrow> string option \<Rightarrow> review list \<Rightarrow> exn + review list" where
  "filter_start_date lib start_date filtered_reviews =
     (if truthy start_date then
        (case strptime lib (the start_date) ''%Y-%m-%d'' of
           Inl e \<Rightarrow> Inl e
         | Inr sd \<Rightarrow>
             filter_exn (\<lambda>review. case strptime lib (Timestamp review) TIMESTAMP_FORMAT of
                                     Inl e \<Rightarrow> Inl e
                                   | Inr t \<Rightarrow> Inr (dt_le sd t))
               filtered_reviews)
      else Inr filtered_reviews)"

text \<open>Lines 93-98.\<close>

definition filter_end_date :: "library \<Rightarrow> string option \<Rightarrow> review list \<Rightarrow> exn + review list" where
  "filter_end_date lib end_date filtered_reviews =
     (if truthy end_date then
        (case strptime lib (the end_date) ''%Y-%m-%d'' of
           Inl e \<Rightarrow> Inl e
         | Inr ed \<Rightarrow>
             filter_exn (\<lambda>review. case strptime lib (Timestamp review) TIMESTAMP_FORMAT of
                                     Inl e \<Rightarrow> Inl e
                                   | Inr t \<Rightarrow> Inr (dt_le t ed))
               filtered_reviews)
      else Inr filtered_reviews)"

text \<open>Lines 100-109.\<close>

definition score_review :: "library \<Rightarrow> review \<Rightarrow> scored_review" where
  "score_review lib review =
     \<lparr>sr_ReviewId = ReviewId review,
      sr_Location = Location review,
      sr_Timestamp = Timestamp review,
      sr_ReviewBody = ReviewBody review,
      sr_sentiment = analyze_sentiment lib (ReviewBody review)\<rparr>"

text \<open>Line 111.\<close>

definition rank :: "scored_review list \<Rightarrow> scored_review list" where
  "rank updated_reviews = sorted_reverse (\<lambda>x. compound (sr_sentiment x)) updated_reviews"

text \<open>The \<^verbatim>\<open>GET\<close> branch, lines 73-121: the response it returns, or the exception that
  leaves it.\<close>

definition get_branch :: "library \<Rightarrow> environ \<Rightarrow> review list \<Rightarrow> exn + response" where
  "get_branch lib environ reviews =
     (case QUERY_STRING environ of
        None \<Rightarrow> Inl (KeyError ([CHR 0x27] @ ''QUERY_STRING'' @ [CHR 0x27]))
      | Some qs \<Rightarrow>
     (case first_value (parse_qs (unquote lib) qs) ''location'' of
        Inl e \<Rightarrow> Inl e
      | Inr location \<Rightarrow>
     (case first_value (parse_qs (unquote lib) qs) ''start_date'' of
        Inl e \<Rightarrow> Inl e
      | Inr start_date \<Rightarrow>
     (case first_value (parse_qs (unquote lib) qs) ''end_date'' of
        Inl e \<Rightarrow> Inl e
      | Inr end_date \<Rightarrow>
     if truthy location \<and> the location \<notin> ALLOWED_LOCATIONS
     then Inr \<lparr>status = ''400 Bad Request'',
               body = error_body (not_allowed_message (the location))\<rparr>
     else
     (case filter_start_date lib start_date (filter_location location reviews) of
        Inl e \<Rightarrow> Inl e
      | Inr by_start \<Rightarrow>
     (case filter_end_date lib end_date by_start of
        Inl e \<Rightarrow> Inl e
      | Inr filtered_reviews \<Rightarrow>
          Inr \<lparr>status = ''200 OK'',
               body = JArr (map scored_json
                              (rank (map (score_review lib) filtered_reviews)))\<rparr>))))))"

text \<open>The body of the inner \<^verbatim>\<open>try\<close> of the \<^verbatim>\<open>POST\<close> branch, lines 127-153: the
  response and the list of reviews after it, or the exception raised.\<close>

definition post_body :: "library \<Rightarrow> world \<Rightarrow> environ \<Rightarrow> review list \<Rightarrow> exn + (response \<times> review list)" where
  "post_body lib w environ reviews =
     (case (case CONTENT_LENGTH environ of None \<Rightarrow> Inr 0 | Some v \<Rightarrow> py_int lib v) of
        Inl e \<Rightarrow> Inl e
      | Inr content_length \<Rightarrow>
     (case wsgi_input environ of
        None \<Rightarrow> Inl (KeyError ([CHR 0x27] @ ''wsgi.input'' @ [CHR 0x27]))
      | Some read_decode \<Rightarrow>
     (case read_decode content_length of
        Inl e \<Rightarrow> Inl e
      | Inr body_text \<Rightarrow>
     (case first_value (parse_qs (unquote lib) body_text) ''Location'' of
        Inl e \<Rightarrow> Inl e
      | Inr location \<Rightarrow>
     (case first_value (parse_qs (unquote lib) body_text) ''ReviewBody'' of
        Inl e \<Rightarrow> Inl e
      | Inr review_body \<Rightarrow>
     if \<not> truthy location \<or> \<not> truthy review_body
     then Inr (\<lparr>status = ''400 Bad Request'',
                body = error_body ''Both 'Location' and 'ReviewBody' are required.''\<rparr>, reviews)
     else if the location \<notin> ALLOWED_LOCATIONS
     then Inr (\<lparr>status = ''400 Bad Request'',
                body = error_body (not_allowed_message (the location))\<rparr>, reviews)
     else
       (let new_review = \<lparr>ReviewId = uuid4 w,
                           Location = the location,
                           Timestamp = strftime (now w),
                           ReviewBody = the review_body\<rparr>
        in Inr (\<lparr>status = ''201 Created'', body = review_json new_review\<rparr>,
                reviews @ [new_review])))))))"

text \<open>The inner \<^verbatim>\<open>try\<close> with its two handlers, lines 126-161.\<close>

definition post_branch :: "library \<Rightarrow> world \<Rightarrow> environ \<Rightarrow> review list \<Rightarrow> response \<times> review list" where
  "post_branch lib w environ reviews =
     (case post_body lib w environ reviews of
        Inr result \<Rightarrow> result
      | Inl ex \<Rightarrow>
          if is_JSONDecodeError ex
          then (\<lparr>status = ''400 Bad Request'', body = error_body ''Invalid JSON format.''\<rparr>, reviews)
          else (\<lparr>status = ''400 Bad Request'', body = error_body (str_of ex)\<rparr>, reviews))"

definition internal_server_error :: response where
  "internal_server_error =
     \<lparr>status = ''500 Internal Server Error'', body = error_body ''Internal server error.''\<rparr>"

text \<open>\<^verbatim>\<open>__call__\<close>: the response and \<^verbatim>\<open>self.reviews\<close> after the request.\<close>

definition call :: "library \<Rightarrow> world \<Rightarrow> environ \<Rightarrow> review list \<Rightarrow> response \<times> review list" where
  "call lib w environ reviews =
     (case REQUEST_METHOD environ of
        None \<Rightarrow> (internal_server_error, reviews)
      | Some request_method \<Rightarrow>
          if request_method = ''GET'' then
            (case get_branch lib environ reviews of
               Inl ex \<Rightarrow> (internal_server_error, reviews)
             | Inr r \<Rightarrow> (r, reviews))
          else if request_method = ''POST'' then post_branch lib w environ reviews
          else (\<lparr>status = ''405 Method Not Allowed'', body = error_body ''Method not allowed.''\<rparr>,
                reviews))"


section \<open>Vocabulary of the properties\<close>


text \<open>The ASCII decimal digits.\<close>

definition is_digit :: "char \<Rightarrow> bool" where
  "is_digit c = (c \<in> set ''0123456789'')"



section \<open>A library for the concrete requests\<close>

text \<open>
  The concrete requests below are run with the following instance of the library:
  \<^verbatim>\<open>urllib.parse.unquote\<close> as \<^verbatim>\<open>urllib\<close> computes it, on strings held as the bytes of
  their UTF-8 encoding; \<^verbatim>\<open>int\<close> and \<^verbatim>\<open>datetime.strptime\<close> as CPython 3.11 computes
  them on ASCII text, which is all the concrete requests contain (on other text the two are
  not meant to say what Python does); and a small deterministic analyser.
\<close>

subsection \<open>\<^verbatim>\<open>urllib.parse.unquote\<close>\<close>

definition digit_val :: "char \<Rightarrow> nat" where
  "digit_val c = of_char c - 48"

text \<open>The character with a given byte value.\<close>

definition byte_char :: "nat \<Rightarrow> char" where
  "byte_char n =
     Char (odd n) (odd (n div 2)) (odd (n div 4)) (odd (n div 8))
          (odd (n div 16)) (odd (n div 32)) (odd (n div 64)) (odd (n div 128))"

definition hex_val :: "char \<Rightarrow> nat option" where
  "hex_val c =
     (if is_digit c then Some (digit_val c)
      else if c \<in> set ''abcdef'' then Some (of_char c - 87)
      else if c \<in> set ''ABCDEF'' then Some (of_char c - 55)
      else None)"

text \<open>\<^verbatim>\<open>unquote_to_bytes\<close>: every \<^verbatim>\<open>%XX\<close> with two hexadecimal digits becomes the byte
  \<^verbatim>\<open>XX\<close>, any other \<^verbatim>\<open>%\<close> stays.\<close>

fun unquote_to_bytes :: "string \<Rightarrow> string" where
  "unquote_to_bytes (p # a # b # r) =
     (if p = CHR ''%'' then
        (case (hex_val a, hex_val b) of
           (Some h, Some l) \<Rightarrow> byte_char (16 * h + l) # unquote_to_bytes r
         | _ \<Rightarrow> p # unquote_to_bytes (a # b # r))
      else p # unquote_to_bytes (a # b # r))"
| "unquote_to_bytes s = s"

text \<open>\<^verbatim>\<open>bytes.decode('utf-8', 'replace')\<close>, the result again as UTF-8 bytes. The length of
  the sequence a byte starts, 0 for a byte that starts none.\<close>

definition sequence_length :: "char \<Rightarrow> nat" where
  "sequence_length c =
     (if (of_char c :: nat) < 0x80 then 1
      else if (of_char c :: nat) < 0xC2 then 0
      else if (of_char c :: nat) < 0xE0 then 2
      else if (of_char c :: nat) < 0xF0 then 3
      else if (of_char c :: nat) < 0xF5 then 4
      else 0)"

definition is_continuation :: "char \<Rightarrow> bool" where
  "is_continuation c = (0x80 \<le> (of_char c :: nat) \<and> (of_char c :: nat) < 0xC0)"

text \<open>The second byte of a sequence: a continuation byte, within the narrower range that
  excludes overlong forms, surrogates and code points above U+10FFFF.\<close>

definition second_byte_ok :: "char \<Rightarrow> char \<Rightarrow> bool" where
  "second_byte_ok c c2 =
     (is_continuation c2
      \<and> (c = CHR 0xE0 \<longrightarrow> 0xA0 \<le> (of_char c2 :: nat))
      \<and> (c = CHR 0xED \<longrightarrow> (of_char c2 :: nat) < 0xA0)
      \<and> (c = CHR 0xF0 \<longrightarrow> 0x90 \<le> (of_char c2 :: nat))
      \<and> (c = CHR 0xF4 \<longrightarrow> (of_char c2 :: nat) < 0x90))"

text \<open>The bytes that continue a sequence, at most \<open>n\<close> of them: the first is tested by
  \<open>ok\<close>, the following ones are continuation bytes.\<close>

fun continuation_run :: "(char \<Rightarrow> bool) \<Rightarrow> nat \<Rightarrow> string \<Rightarrow> string" where
  "continuation_run ok 0 s = []"
| "continuation_run ok (Suc n) [] = []"
| "continuation_run ok (Suc n) (c # s) =
     (if ok c then c # continuation_run is_continuation n s else [])"

text \<open>U+FFFD in UTF-8.\<close>

definition replacement_character :: string where
  "replacement_character = [CHR 0xEF, CHR 0xBF, CHR 0xBD]"

text \<open>A complete sequence is kept. A byte that starts no sequence, and the bytes of a sequence
  cut short by a byte that cannot continue it or by the end of the input, become one
  U+FFFD; decoding goes on at the byte that cut the sequence.\<close>

function decode_replace :: "string \<Rightarrow> string" where
  "decode_replace [] = []"
| "decode_replace (c # s) =
     (if sequence_length c = 0 then replacement_character @ decode_replace s
      else if length (continuation_run (second_byte_ok c) (sequence_length c - 1) s)
                = sequence_length c - 1
      then c # continuation_run (second_byte_ok c) (sequence_length c - 1) s
             @ decode_replace (drop (sequence_length c - 1) s)
      else replacement_character
             @ decode_replace (drop (length (continuation_run (second_byte_ok c)
                                                (sequence_length c - 1) s)) s))"
  by pat_completeness auto
termination
  by (relation "measure length") auto

declare decode_replace.simps [simp del]

definition is_ascii :: "char \<Rightarrow> bool" where
  "is_ascii c = ((of_char c :: nat) < 0x80)"

text \<open>\<^verbatim>\<open>unquote\<close> splits the text into runs of ASCII characters and runs of other
  characters; an ASCII run is percent-decoded to bytes and the bytes decoded as UTF-8 with
  replacement, the other runs are kept.\<close>

function urllib_unquote :: "string \<Rightarrow> string" where
  "urllib_unquote s =
     (if s = [] then []
      else if is_ascii (hd s)
      then decode_replace (unquote_to_bytes (takeWhile is_ascii s))
             @ urllib_unquote (dropWhile is_ascii s)
      else takeWhile (\<lambda>c. \<not> is_ascii c) s
             @ urllib_unquote (dropWhile (\<lambda>c. \<not> is_ascii c) s))"
  by pat_completeness auto
termination
proof (relation "measure length")
  show "wf (measure length)" by simp
next
  fix s :: string
  assume "s \<noteq> []" "is_ascii (hd s)"
  then have "length (dropWhile is_ascii s) < length s"
    by (cases s) (simp_all add: length_dropWhile_le le_imp_less_Suc)
  then show "(dropWhile is_ascii s, s) \<in> measure length" by simp
next
  fix s :: string
  assume "s \<noteq> []" "\<not> is_ascii (hd s)"
  then have "length (dropWhile (\<lambda>c. \<not> is_ascii c) s) < length s"
    by (cases s) (simp_all add: length_dropWhile_le le_imp_less_Suc)
  then show "(dropWhile (\<lambda>c. \<not> is_ascii c) s, s) \<in> measure length" by simp
qed

declare urllib_unquote.simps [simp del]

subsection \<open>\<^verbatim>\<open>int\<close> and \<^verbatim>\<open>repr\<close> on ASCII text\<close>

definition hex2 :: "nat \<Rightarrow> string" where
  "hex2 n = [''0123456789abcdef'' ! ((n div 16) mod 16), ''0123456789abcdef'' ! (n mod 16)]"

text \<open>\<^verbatim>\<open>repr\<close> of an ASCII string: the quote is chosen as Python chooses it, and the
  quote, the backslash and control characters are escaped.\<close>

definition repr_char :: "char \<Rightarrow> char \<Rightarrow> string" where
  "repr_char q c =
     (if c = q \<or> c = CHR 0x5C then [CHR 0x5C, c]
      else if c = CHR 0x0A then [CHR 0x5C, CHR ''n'']
      else if c = CHR 0x0D then [CHR 0x5C, CHR ''r'']
      else if c = CHR 0x09 then [CHR 0x5C, CHR ''t'']
      else if (of_char c :: nat) < 32 \<or> c = CHR 0x7F then [CHR 0x5C, CHR ''x''] @ hex2 (of_char c)
      else [c])"

definition ascii_repr :: "string \<Rightarrow> string" where
  "ascii_repr s =
     (let q = (if CHR 0x27 \<in> set s \<and> CHR 0x22 \<notin> set s then CHR 0x22 else CHR 0x27)
      in [q] @ concat (map (repr_char q) s) @ [q])"

text \<open>The white space \<^verbatim>\<open>int\<close> strips from an ASCII string.\<close>

definition is_space :: "char \<Rightarrow> bool" where
  "is_space c = (c \<in> set [CHR 0x20, CHR 0x09, CHR 0x0A, CHR 0x0B, CHR 0x0C, CHR 0x0D])"

text \<open>The digits of a decimal literal, single underscores between digits dropped;
  \<open>None\<close> where the text is not such a literal.\<close>

fun int_digits :: "string \<Rightarrow> string option" where
  "int_digits [] = None"
| "int_digits [c] = (if is_digit c then Some [c] else None)"
| "int_digits (c # d # r) =
     (if is_digit c
      then (if d = CHR ''_'' then map_option (Cons c) (int_digits r)
            else map_option (Cons c) (int_digits (d # r)))
      else None)"

definition strip :: "string \<Rightarrow> string" where
  "strip s = rev (dropWhile is_space (rev (dropWhile is_space s)))"

definition digits_value :: "string \<Rightarrow> nat" where
  "digits_value ds = foldl (\<lambda>a c. 10 * a + digit_val c) 0 ds"

text \<open>\<^verbatim>\<open>int(s)\<close> for an ASCII string \<open>s\<close>; the message of the \<^verbatim>\<open>ValueError\<close> shows at
  most 200 characters of \<^verbatim>\<open>repr(s)\<close>.\<close>

definition ascii_int :: "string \<Rightarrow> exn + int" where
  "ascii_int s =
     (let t = strip s;
          negative = (t \<noteq> [] \<and> hd t = CHR ''-'');
          u = (if t \<noteq> [] \<and> (hd t = CHR ''-'' \<or> hd t = CHR ''+'') then tl t else t)
      in case int_digits u of
           None \<Rightarrow> Inl (ValueError (''invalid literal for int() with base 10: ''
                                     @ take 200 (ascii_repr s)))
         | Some ds \<Rightarrow>
             if length ds > 4300
             then Inl (ValueError (''Exceeds the limit (4300 digits) for integer string conversion: value has ''
                    @ dec (length ds) @ '' digits; use sys.set_int_max_str_digits() to increase the limit''))
             else Inr (if negative then - int (digits_value ds) else int (digits_value ds)))"

subsection \<open>\<^verbatim>\<open>datetime.strptime\<close> on ASCII text\<close>

text \<open>
  \<^verbatim>\<open>strptime\<close> turns the format into a regular expression and matches it at the start of
  the text, by backtracking. A piece of the expression is modelled as a function from the
  remaining text to the list of its possible matches, in the order the matcher tries them;
  the first complete match is the one \<^verbatim>\<open>re.match\<close> returns.
\<close>

definition alt2 :: "(char \<Rightarrow> char \<Rightarrow> bool) \<Rightarrow> string \<Rightarrow> (nat \<times> string) list" where
  "alt2 P s =
     (case s of
        a # b # r \<Rightarrow> if P a b then [(10 * digit_val a + digit_val b, r)] else []
      | _ \<Rightarrow> [])"

definition alt1 :: "(char \<Rightarrow> bool) \<Rightarrow> string \<Rightarrow> (nat \<times> string) list" where
  "alt1 P s = (case s of a # r \<Rightarrow> if P a then [(digit_val a, r)] else [] | _ \<Rightarrow> [])"

text \<open>\<^verbatim>\<open>%Y\<close> is \<^verbatim>\<open>\d\d\d\d\<close>.\<close>

definition re_Y :: "string \<Rightarrow> (nat \<times> string) list" where
  "re_Y s =
     (case s of
        a # b # c # d # r \<Rightarrow>
          if is_digit a \<and> is_digit b \<and> is_digit c \<and> is_digit d
          then [(1000 * digit_val a + 100 * digit_val b + 10 * digit_val c + digit_val d, r)]
          else []
      | _ \<Rightarrow> [])"

text \<open>\<^verbatim>\<open>%m\<close> is \<^verbatim>\<open>1[0-2]|0[1-9]|[1-9]\<close>.\<close>

definition re_m :: "string \<Rightarrow> (nat \<times> string) list" where
  "re_m s =
     alt2 (\<lambda>a b. a = CHR ''1'' \<and> b \<in> set ''012'') s
     @ alt2 (\<lambda>a b. a = CHR ''0'' \<and> b \<in> set ''123456789'') s
     @ alt1 (\<lambda>a. a \<in> set ''123456789'') s"

text \<open>\<^verbatim>\<open>%d\<close> is \<^verbatim>\<open>3[0-1]|[1-2]\d|0[1-9]|[1-9]| [1-9]\<close>.\<close>

definition re_d :: "string \<Rightarrow> (nat \<times> string) list" where
  "re_d s =
     alt2 (\<lambda>a b. a = CHR ''3'' \<and> b \<in> set ''01'') s
     @ alt2 (\<lambda>a b. a \<in> set ''12'' \<and> is_digit b) s
     @ alt2 (\<lambda>a b. a = CHR ''0'' \<and> b \<in> set ''123456789'') s
     @ alt1 (\<lambda>a. a \<in> set ''123456789'') s
     @ (case s of
          a # b # r \<Rightarrow> if a = CHR 0x20 \<and> b \<in> set ''123456789'' then [(digit_val b, r)] else []
        | _ \<Rightarrow> [])"

text \<open>\<^verbatim>\<open>%H\<close> is \<^verbatim>\<open>2[0-3]|[0-1]\d|\d\<close>.\<close>

definition re_H :: "string \<Rightarrow> (nat \<times> string) list" where
  "re_H s =
     alt2 (\<lambda>a b. a = CHR ''2'' \<and> b \<in> set ''0123'') s
     @ alt2 (\<lambda>a b. a \<in> set ''01'' \<and> is_digit b) s
     @ alt1 is_digit s"

text \<open>\<^verbatim>\<open>%M\<close> is \<^verbatim>\<open>[0-5]\d|\d\<close>.\<close>

definition re_M :: "string \<Rightarrow> (nat \<times> string) list" where
  "re_M s =
     alt2 (\<lambda>a b. a \<in> set ''012345'' \<and> is_digit b) s
     @ alt1 is_digit s"

text \<open>\<^verbatim>\<open>%S\<close> is \<^verbatim>\<open>6[0-1]|[0-5]\d|\d\<close>.\<close>

definition re_S :: "string \<Rightarrow> (nat \<times> string) list" where
  "re_S s =
     alt2 (\<lambda>a b. a = CHR ''6'' \<and> b \<in> set ''01'') s
     @ alt2 (\<lambda>a b. a \<in> set ''012345'' \<and> is_digit b) s
     @ alt1 is_digit s"

definition re_lit :: "char \<Rightarrow> string \<Rightarrow> string list" where
  "re_lit c s = (case s of a # r \<Rightarrow> if a = c then [r] else [] | [] \<Rightarrow> [])"

text \<open>The ASCII characters the regular expression \<^verbatim>\<open>\s\<close> matches: those of \<open>is_space\<close>
  and the four separators U+001C to U+001F.\<close>

definition is_re_space :: "char \<Rightarrow> bool" where
  "is_re_space c = (is_space c \<or> c \<in> set [CHR 0x1C, CHR 0x1D, CHR 0x1E, CHR 0x1F])"

text \<open>The blank of the timestamp format becomes \<^verbatim>\<open>\s+\<close>, which is greedy: the longest
  run of white space is tried first.\<close>

fun re_ws :: "string \<Rightarrow> string list" where
  "re_ws [] = []"
| "re_ws (c # r) = (if is_re_space c then re_ws r @ [r] else [])"

definition match_date :: "string \<Rightarrow> ((nat \<times> nat \<times> nat) \<times> string) list" where
  "match_date s =
     [((y, m, d), r5).
        (y, r1) \<leftarrow> re_Y s, r2 \<leftarrow> re_lit CHR ''-'' r1,
        (m, r3) \<leftarrow> re_m r2, r4 \<leftarrow> re_lit CHR ''-'' r3,
        (d, r5) \<leftarrow> re_d r4]"

definition match_time :: "string \<Rightarrow> ((nat \<times> nat \<times> nat) \<times> string) list" where
  "match_time s =
     [((H, M, S), r5).
        (H, r1) \<leftarrow> re_H s, r2 \<leftarrow> re_lit CHR '':'' r1,
        (M, r3) \<leftarrow> re_M r2, r4 \<leftarrow> re_lit CHR '':'' r3,
        (S, r5) \<leftarrow> re_S r4]"

definition match_timestamp :: "string \<Rightarrow> (((nat \<times> nat \<times> nat) \<times> (nat \<times> nat \<times> nat)) \<times> string) list" where
  "match_timestamp s =
     [((ymd, hms), r3).
        (ymd, r1) \<leftarrow> match_date s, r2 \<leftarrow> re_ws r1, (hms, r3) \<leftarrow> match_time r2]"

text \<open>The checks of the \<^verbatim>\<open>date\<close> and \<^verbatim>\<open>datetime\<close> constructors, which
  \<^verbatim>\<open>strptime\<close> calls on the matched numbers, in their order.\<close>

definition make_datetime :: "nat \<times> nat \<times> nat \<Rightarrow> nat \<times> nat \<times> nat \<Rightarrow> exn + datetime" where
  "make_datetime ymd hms =
     (let d = \<lparr>year = fst ymd, month = fst (snd ymd), day = snd (snd ymd),
                hour = fst hms, minute = fst (snd hms), second = snd (snd hms)\<rparr>
      in if year d < 1 \<or> 9999 < year d
         then Inl (ValueError (''year '' @ dec (year d) @ '' is out of range''))
         else if month d < 1 \<or> 12 < month d
         then Inl (ValueError ''month must be in 1..12'')
         else if day d < 1 \<or> days_in_month (year d) (month d) < day d
         then Inl (ValueError ''day is out of range for month'')
         else if 23 < hour d then Inl (ValueError ''hour must be in 0..23'')
         else if 59 < minute d then Inl (ValueError ''minute must be in 0..59'')
         else if 59 < second d then Inl (ValueError ''second must be in 0..59'')
         else Inr d)"

text \<open>\<^verbatim>\<open>datetime.strptime(s, '%Y-%m-%d')\<close>.\<close>

definition strptime_date :: "string \<Rightarrow> exn + datetime" where
  "strptime_date s =
     (case match_date s of
        [] \<Rightarrow> Inl (ValueError (''time data '' @ ascii_repr s @ '' does not match format ''
                               @ ascii_repr ''%Y-%m-%d''))
      | (ymd, r) # _ \<Rightarrow>
          if r \<noteq> [] then Inl (ValueError (''unconverted data remains: '' @ r))
          else make_datetime ymd (0, 0, 0))"

text \<open>\<^verbatim>\<open>datetime.strptime(s, '%Y-%m-%d %H:%M:%S')\<close>.\<close>

definition strptime_timestamp :: "string \<Rightarrow> exn + datetime" where
  "strptime_timestamp s =
     (case match_timestamp s of
        [] \<Rightarrow> Inl (ValueError (''time data '' @ ascii_repr s @ '' does not match format ''
                               @ ascii_repr ''%Y-%m-%d %H:%M:%S''))
      | ((ymd, hms), r) # _ \<Rightarrow>
          if r \<noteq> [] then Inl (ValueError (''unconverted data remains: '' @ r))
          else make_datetime ymd hms)"

text \<open>The two formats the source passes; no other format is modelled.\<close>

definition ascii_strptime :: "string \<Rightarrow> string \<Rightarrow> exn + datetime" where
  "ascii_strptime s format =
     (if format = ''%Y-%m-%d'' then strptime_date s
      else if format = ''%Y-%m-%d %H:%M:%S'' then strptime_timestamp s
      else Inl (ValueError ''format not modelled''))"

subsection \<open>The analyser and the library\<close>

text \<open>A deterministic analyser for the examples.\<close>

definition example_scorer :: "string \<Rightarrow> sentiment" where
  "example_scorer review_body =
     (if review_body = ''good'' then \<lparr>neg = 0, neu = 0, pos = 1, compound = 0.4404\<rparr>
      else if review_body = ''bad'' then \<lparr>neg = 1, neu = 0, pos = 0, compound = -0.5423\<rparr>
      else \<lparr>neg = 0, neu = 1, pos = 0, compound = 0\<rparr>)"

definition example_library :: library where
  "example_library =
     \<lparr>unquote = urllib_unquote, py_int = ascii_int, strptime = ascii_strptime,
      polarity_scores = example_scorer\<rparr>"

subsection \<open>Concrete requests\<close>

definition example_world :: world where
  "example_world =
     \<lparr>uuid4 = ''0b0e7a3c-5a51-4c0e-9d59-1f2f6f0c2a11'',
      now = \<lparr>year = 2024, month = 3, day = 9, hour = 14, minute = 5, second = 7\<rparr>\<rparr>"


definition get_environ :: "string \<Rightarrow> environ" where
  "get_environ qs =
     \<lparr>REQUEST_METHOD = Some ''GET'', QUERY_STRING = Some qs,
      CONTENT_LENGTH = None, wsgi_input = None\<rparr>"

text \<open>A request body of ASCII text held in a stream: \<^verbatim>\<open>read(n)\<close> gives at most \<open>n\<close>
  bytes, all of them for a negative \<open>n\<close>.\<close>

definition body_reader :: "string \<Rightarrow> int \<Rightarrow> exn + string" where
  "body_reader data n = Inr (if n < 0 then data else take (nat n) data)"

definition post_environ :: "string \<Rightarrow> string \<Rightarrow> environ" where
  "post_environ content_length data =
     \<lparr>REQUEST_METHOD = Some ''POST'', QUERY_STRING = Some [],
      CONTENT_LENGTH = Some content_length, wsgi_input = Some (body_reader data)\<rparr>"

text \<open>A stream whose \<^verbatim>\<open>read\<close> raises.\<close>

definition broken_reader :: "int \<Rightarrow> exn + string" where
  "broken_reader n = Inl (OtherError ''[Errno 104] Connection reset by peer'')"

definition broken_post_environ :: environ where
  "broken_post_environ =
     \<lparr>REQUEST_METHOD = Some ''POST'', QUERY_STRING = Some [],
      CONTENT_LENGTH = Some ''12'', wsgi_input = Some broken_reader\<rparr>"

definition review_a :: review where
  "review_a = \<lparr>ReviewId = ''a'', Location = ''Denver, Colorado'',
                Timestamp = ''2024-01-01 00:00:00'', ReviewBody = ''bad''\<rparr>"

definition review_b :: review where
  "review_b = \<lparr>ReviewId = ''b'', Location = ''Denver, Colorado'',
                Timestamp = ''2024-01-31 00:00:00'', ReviewBody = ''fine''\<rparr>"

definition review_c :: review where
  "review_c = \<lparr>ReviewId = ''c'', Location = ''El Paso, Texas'',
                Timestamp = ''2024-01-15 08:30:00'', ReviewBody = ''good''\<rparr>"

definition review_d :: review where
  "review_d = \<lparr>ReviewId = ''d'', Location = ''Denver, Colorado'',
                Timestamp = ''2024-01-31 00:00:01'', ReviewBody = ''okay''\<rparr>"

definition example_reviews :: "review list" where
  "example_reviews = [review_a, review_b, review_c, review_d]"

section \<open>Facts about the library functions\<close>

lemma split_on_nonempty: "split_on c s \<noteq> []"
  by (induction s) (auto split: list.splits)

lemma split_on_append: "split_on c (a @ c # b) = split_on c a @ split_on c b"
proof (induction a)
  case Nil
  then show ?case by simp
next
  case (Cons x a)
  then show ?case
    using split_on_nonempty [of c a]
    by (cases "split_on c a") auto
qed

lemma split_on_single: "c \<notin> set s \<Longrightarrow> split_on c s = [s]"
  by (induction s) auto

lemma split_first_blank: "c \<notin> set k \<Longrightarrow> split_first c (k @ [c]) = Some (k, [])"
  by (induction k) auto

lemma parse_qsl_append:
  "parse_qsl unq (a @ CHR ''&'' # b) = parse_qsl unq a @ parse_qsl unq b"
  by (simp add: parse_qsl_def split_on_append)

lemma foldl_add_pair:
  "foldl add_pair m ps k =
     (case m k of
        None \<Rightarrow> (if map snd (filter (\<lambda>p. fst p = k) ps) = [] then None
                 else Some (map snd (filter (\<lambda>p. fst p = k) ps)))
      | Some us \<Rightarrow> Some (us @ map snd (filter (\<lambda>p. fst p = k) ps)))"
proof (induction ps arbitrary: m)
  case Nil
  then show ?case by (simp split: option.splits)
next
  case (Cons p ps)
  show ?case
  proof (cases "fst p = k")
    case True
    then have "add_pair m p k = Some ((case m k of None \<Rightarrow> [] | Some us \<Rightarrow> us) @ [snd p])"
      by (simp add: add_pair_def split: option.splits)
    with True show ?thesis
      by (cases "m k") (simp_all add: Cons.IH)
  next
    case False
    then have "add_pair m p k = m k"
      by (simp add: add_pair_def split: option.splits)
    with False show ?thesis
      by (cases "m k") (simp_all add: Cons.IH)
  qed
qed

text \<open>The dict of \<^verbatim>\<open>parse_qs\<close> at a key: the values of the pairs with that name, in
  their order, and no entry where there is none.\<close>

lemma parse_qs_eq:
  "parse_qs unq qs k =
     (let vs = map snd (filter (\<lambda>p. fst p = k) (parse_qsl unq qs))
      in if vs = [] then None else Some vs)"
  by (simp add: parse_qs_def foldl_add_pair Let_def)

lemma parse_qs_Some: "parse_qs unq qs k = Some vs \<Longrightarrow> vs \<noteq> []"
  by (auto simp: parse_qs_eq Let_def split: if_splits)

text \<open>\<^verbatim>\<open>query.get(key, [None])[0]\<close> never raises on a dict made by \<^verbatim>\<open>parse_qs\<close>.\<close>

lemma first_value_parse_qs:
  "first_value (parse_qs unq qs) k = Inr (map_option hd (parse_qs unq qs k))"
  using parse_qs_Some [of unq qs k]
  by (auto simp: first_value_def split: option.splits list.splits)

lemma sorted_reverse_stable:
  "filter (\<lambda>x. key x = c) (sorted_reverse key xs) = filter (\<lambda>x. key x = c) xs"
  by (simp add: sorted_reverse_def rev_filter [symmetric] sort_key_stable)



lemma filter_exn_total:
  "\<forall>x \<in> set xs. p x = Inr (q x) \<Longrightarrow> filter_exn p xs = Inr (filter q xs)"
  by (induction xs) auto

subsection \<open>The library of the concrete requests on plain text\<close>

lemma unquote_to_bytes_plain: "CHR ''%'' \<notin> set s \<Longrightarrow> unquote_to_bytes s = s"
  by (induction s rule: unquote_to_bytes.induct) auto

lemma decode_replace_ascii: "list_all is_ascii s \<Longrightarrow> decode_replace s = s"
  by (induction s) (simp_all add: decode_replace.simps is_ascii_def sequence_length_def)

text \<open>Text of ASCII characters without \<^verbatim>\<open>%\<close> is its own decoding.\<close>

lemma urllib_unquote_plain:
  assumes "list_all is_ascii s" and "CHR ''%'' \<notin> set s"
  shows "urllib_unquote s = s"
proof (cases "s = []")
  case True
  then show ?thesis by (simp add: urllib_unquote.simps)
next
  case False
  from assms(1) have t: "takeWhile is_ascii s = s" and d: "dropWhile is_ascii s = []"
    by (simp_all add: list_all_iff)
  from False assms(1) have h: "is_ascii (hd s)"
    by (cases s) simp_all
  show ?thesis
    using False h assms
    by (subst urllib_unquote.simps)
       (simp add: t d unquote_to_bytes_plain decode_replace_ascii urllib_unquote.simps [of "[]"])
qed

subsection \<open>Blank fields of a query string\<close>

lemma parse_field_blank: "CHR ''='' \<notin> set k \<Longrightarrow> parse_field unq (k @ ''='') = []"
  by (simp add: parse_field_def split_first_blank)

lemma parse_qsl_blank:
  assumes "CHR ''='' \<notin> set k" and "CHR ''&'' \<notin> set k"
  shows "parse_qsl unq (k @ ''='') = []"
  using assms by (simp add: parse_qsl_def split_on_single parse_field_blank)

lemma parse_qs_cong:
  "parse_qsl unq qs = parse_qsl unq qs' \<Longrightarrow> parse_qs unq qs = parse_qs unq qs'"
  by (simp add: parse_qs_def)

text \<open>The \<^verbatim>\<open>GET\<close> branch reads the query string through \<^verbatim>\<open>parse_qs\<close> only.\<close>

lemma get_reads_parse_qs:
  assumes "parse_qsl (unquote lib) qs = parse_qsl (unquote lib) qs'"
  shows "call lib w (environ\<lparr>REQUEST_METHOD := Some ''GET'', QUERY_STRING := Some qs\<rparr>) reviews
       = call lib w (environ\<lparr>REQUEST_METHOD := Some ''GET'', QUERY_STRING := Some qs'\<rparr>) reviews"
  using parse_qs_cong [OF assms] by (simp add: call_def get_branch_def first_value_parse_qs)

subsection \<open>Shapes of the responses\<close>

text \<open>A \<^verbatim>\<open>GET\<close> request without criteria.\<close>

lemma no_criteria:
  assumes "REQUEST_METHOD environ = Some ''GET''"
    and "QUERY_STRING environ = Some qs"
    and "parse_qs (unquote lib) qs ''location'' = None"
    and "parse_qs (unquote lib) qs ''start_date'' = None"
    and "parse_qs (unquote lib) qs ''end_date'' = None"
  shows "call lib w environ reviews =
           (\<lparr>status = ''200 OK'',
             body = JArr (map scored_json (rank (map (score_review lib) reviews)))\<rparr>,
            reviews)"
  using assms
  by (simp add: call_def get_branch_def first_value_parse_qs truthy_def
      filter_location_def filter_start_date_def filter_end_date_def)

lemma filter_exn_Inr:
  "filter_exn p xs = Inr ys \<Longrightarrow> ys = filter (\<lambda>x. p x = Inr True) xs"
  by (induction xs arbitrary: ys) (auto split: sum.splits if_splits)

lemma filter_location_form: "\<exists>P. filter_location location xs = filter P xs"
proof (cases "truthy location")
  case True
  then show ?thesis by (auto simp: filter_location_def)
next
  case False
  then have "filter_location location xs = filter (\<lambda>_. True) xs"
    by (simp add: filter_location_def)
  then show ?thesis by (rule exI [of _ "\<lambda>_. True"])
qed

lemma filter_start_date_form:
  assumes "filter_start_date lib start_date xs = Inr ys"
  shows "\<exists>P. ys = filter P xs"
proof (cases "truthy start_date")
  case True
  with assms show ?thesis
    by (auto simp: filter_start_date_def split: sum.splits dest: filter_exn_Inr)
next
  case False
  with assms have "ys = filter (\<lambda>_. True) xs"
    by (simp add: filter_start_date_def)
  then show ?thesis by (rule exI [of _ "\<lambda>_. True"])
qed

lemma filter_end_date_form:
  assumes "filter_end_date lib end_date xs = Inr ys"
  shows "\<exists>P. ys = filter P xs"
proof (cases "truthy end_date")
  case True
  with assms show ?thesis
    by (auto simp: filter_end_date_def split: sum.splits dest: filter_exn_Inr)
next
  case False
  with assms have "ys = filter (\<lambda>_. True) xs"
    by (simp add: filter_end_date_def)
  then show ?thesis by (rule exI [of _ "\<lambda>_. True"])
qed

text \<open>A 200 response carries the ranking of the scored reviews that passed the filters, and
  these are reviews of the list in the order of the list.\<close>

lemma get_branch_ok:
  assumes "get_branch lib environ reviews = Inr r"
    and "status r = ''200 OK''"
  shows "\<exists>P. body r = JArr (map scored_json (rank (map (score_review lib) (filter P reviews))))"
proof -
  from assms obtain location start_date end_date by_start filtered_reviews where
    s: "filter_start_date lib start_date (filter_location location reviews) = Inr by_start"
    and e: "filter_end_date lib end_date by_start = Inr filtered_reviews"
    and b: "body r = JArr (map scored_json (rank (map (score_review lib) filtered_reviews)))"
    unfolding get_branch_def
    by (auto split: option.splits sum.splits if_splits)
  obtain P1 where "filter_location location reviews = filter P1 reviews"
    using filter_location_form by blast
  moreover obtain P2 where "by_start = filter P2 (filter_location location reviews)"
    using filter_start_date_form [OF s] by blast
  moreover obtain P3 where "filtered_reviews = filter P3 by_start"
    using filter_end_date_form [OF e] by blast
  ultimately have "filtered_reviews = filter (\<lambda>x. P1 x \<and> P2 x \<and> P3 x) reviews"
    by (simp add: conj_commute conj_left_commute)
  with b show ?thesis by blast
qed




subsection \<open>The timestamp of a new review\<close>




subsection \<open>The identifiers of the reviews\<close>



lemma post_body_status:
  "post_body lib w environ reviews = Inr result \<Longrightarrow>
     status (fst result) = ''201 Created'' \<or> status (fst result) = ''400 Bad Request''"
  unfolding post_body_def
  by (auto simp: Let_def split: sum.splits option.splits if_splits)

subsection \<open>The date filters on parsed timestamps\<close>

lemma dt_le_refl: "dt_le d d"
  by (simp add: dt_le_def)

lemma filter_start_date_parsed:
  assumes "truthy start_date \<longrightarrow> strptime lib (the start_date) ''%Y-%m-%d'' = Inr sd"
    and "\<forall>review \<in> set xs. strptime lib (Timestamp review) TIMESTAMP_FORMAT = Inr (ts review)"
  shows "filter_start_date lib start_date xs
           = Inr (filter (\<lambda>review. truthy start_date \<longrightarrow> dt_le sd (ts review)) xs)"
proof (cases "truthy start_date")
  case True
  have "filter_exn (\<lambda>review. case strptime lib (Timestamp review) TIMESTAMP_FORMAT of
                               Inl e \<Rightarrow> Inl e
                             | Inr t \<Rightarrow> Inr (dt_le sd t)) xs
          = Inr (filter (\<lambda>review. dt_le sd (ts review)) xs)"
    by (rule filter_exn_total) (simp add: assms(2))
  with True assms(1) show ?thesis
    by (simp add: filter_start_date_def)
next
  case False
  then show ?thesis by (simp add: filter_start_date_def)
qed

lemma filter_end_date_parsed:
  assumes "truthy end_date \<longrightarrow> strptime lib (the end_date) ''%Y-%m-%d'' = Inr ed"
    and "\<forall>review \<in> set xs. strptime lib (Timestamp review) TIMESTAMP_FORMAT = Inr (ts review)"
  shows "filter_end_date lib end_date xs
           = Inr (filter (\<lambda>review. truthy end_date \<longrightarrow> dt_le (ts review) ed) xs)"
proof (cases "truthy end_date")
  case True
  have "filter_exn (\<lambda>review. case strptime lib (Timestamp review) TIMESTAMP_FORMAT of
                               Inl e \<Rightarrow> Inl e
                             | Inr t \<Rightarrow> Inr (dt_le t ed)) xs
          = Inr (filter (\<lambda>review. dt_le (ts review) ed) xs)"
    by (rule filter_exn_total) (simp add: assms(2))
  with True assms(1) show ?thesis
    by (simp add: filter_end_date_def)
next
  case False
  then show ?thesis by (simp add: filter_end_date_def)
qed

subsection \<open>Evaluation at the concrete requests\<close>

lemma unquote_example: "unquote example_library = urllib_unquote"
  by (simp add: example_library_def)

lemma ascii_int_0: "ascii_int ''0'' = Inr 0"
  by (simp add: ascii_int_def strip_def is_space_def is_digit_def digits_value_def digit_val_def)

lemma parse_qsl_Nil: "parse_qsl unq [] = []"
  by (simp add: parse_qsl_def parse_field_def)

lemma parse_qsl_blank_location: "parse_qsl unq ''location='' = []"
  by (simp add: parse_qsl_def parse_field_def)

lemma parse_qsl_nowhere:
  "parse_qsl urllib_unquote ''location=Nowhere, Nowhere'' = [(''location'', ''Nowhere, Nowhere'')]"
  by (simp add: parse_qsl_def parse_field_def plus_to_space_def urllib_unquote_plain is_ascii_def)

lemma rank_example:
  "rank (map (score_review example_library) example_reviews)
     = map (score_review example_library) [review_c, review_b, review_d, review_a]"
  by (simp add: rank_def sorted_reverse_def score_review_def analyze_sentiment_def
      example_library_def example_scorer_def example_reviews_def
      review_a_def review_b_def review_c_def review_d_def)






lemmas strptime_eval =
  ascii_strptime_def TIMESTAMP_FORMAT_def
  strptime_date_def strptime_timestamp_def match_timestamp_def match_time_def match_date_def
  re_Y_def re_m_def re_d_def re_H_def re_M_def re_S_def re_lit_def alt1_def alt2_def
  is_re_space_def is_space_def is_digit_def digit_val_def
  make_datetime_def days_in_month_def is_leap_def

lemma strptime_2024_01_01:
  "ascii_strptime ''2024-01-01'' ''%Y-%m-%d''
     = Inr \<lparr>year = 2024, month = 1, day = 1, hour = 0, minute = 0, second = 0\<rparr>"
  by (simp add: strptime_eval)

lemma strptime_2024_01_31:
  "ascii_strptime ''2024-01-31'' ''%Y-%m-%d''
     = Inr \<lparr>year = 2024, month = 1, day = 31, hour = 0, minute = 0, second = 0\<rparr>"
  by (simp add: strptime_eval)

lemma strptime_review_a:
  "ascii_strptime ''2024-01-01 00:00:00'' TIMESTAMP_FORMAT
     = Inr \<lparr>year = 2024, month = 1, day = 1, hour = 0, minute = 0, second = 0\<rparr>"
  by (simp add: strptime_eval)

lemma strptime_review_b:
  "ascii_strptime ''2024-01-31 00:00:00'' TIMESTAMP_FORMAT
     = Inr \<lparr>year = 2024, month = 1, day = 31, hour = 0, minute = 0, second = 0\<rparr>"
  by (simp add: strptime_eval)

lemma strptime_review_c:
  "ascii_strptime ''2024-01-15 08:30:00'' TIMESTAMP_FORMAT
     = Inr \<lparr>year = 2024, month = 1, day = 15, hour = 8, minute = 30, second = 0\<rparr>"
  by (simp add: strptime_eval)

lemma strptime_review_d:
  "ascii_strptime ''2024-01-31 00:00:01'' TIMESTAMP_FORMAT
     = Inr \<lparr>year = 2024, month = 1, day = 31, hour = 0, minute = 0, second = 1\<rparr>"
  by (simp add: strptime_eval)

lemma strptime_notadate:
  "ascii_strptime ''notadate'' ''%Y-%m-%d''
     = Inl (ValueError (''time data '' @ [CHR 0x27] @ ''notadate'' @ [CHR 0x27]
                        @ '' does not match format '' @ [CHR 0x27] @ ''%Y-%m-%d'' @ [CHR 0x27]))"
  by (simp add: strptime_eval ascii_repr_def repr_char_def Let_def)

lemma strptime_2024_13_01:
  "ascii_strptime ''2024-13-01'' ''%Y-%m-%d''
     = Inl (ValueError (''time data '' @ [CHR 0x27] @ ''2024-13-01'' @ [CHR 0x27]
                        @ '' does not match format '' @ [CHR 0x27] @ ''%Y-%m-%d'' @ [CHR 0x27]))"
  by (simp add: strptime_eval ascii_repr_def repr_char_def Let_def)

lemma parse_qsl_notadate:
  "parse_qsl urllib_unquote ''start_date=notadate'' = [(''start_date'', ''notadate'')]"
  by (simp add: parse_qsl_def parse_field_def plus_to_space_def urllib_unquote_plain is_ascii_def)

lemma parse_qsl_month_13:
  "parse_qsl urllib_unquote ''location=Denver, Colorado&end_date=2024-13-01''
     = [(''location'', ''Denver, Colorado''), (''end_date'', ''2024-13-01'')]"
  by (simp add: parse_qsl_def parse_field_def plus_to_space_def urllib_unquote_plain is_ascii_def)

lemma ascii_int_12: "ascii_int ''12'' = Inr 12"
  by (simp add: ascii_int_def strip_def is_space_def is_digit_def digits_value_def digit_val_def)

lemma ascii_int_abc:
  "ascii_int ''abc''
     = Inl (ValueError (''invalid literal for int() with base 10: '' @ [CHR 0x27] @ ''abc'' @ [CHR 0x27]))"
  by (simp add: ascii_int_def strip_def is_space_def is_digit_def ascii_repr_def repr_char_def Let_def)

lemma parse_qsl_january:
  "parse_qsl urllib_unquote ''location=Denver, Colorado&start_date=2024-01-01&end_date=2024-01-31''
     = [(''location'', ''Denver, Colorado''), (''start_date'', ''2024-01-01''),
        (''end_date'', ''2024-01-31'')]"
  by (simp add: parse_qsl_def parse_field_def plus_to_space_def urllib_unquote_plain is_ascii_def)

lemma rank_january:
  "rank (map (score_review example_library) [review_a, review_b])
     = map (score_review example_library) [review_b, review_a]"
  by (simp add: rank_def sorted_reverse_def score_review_def analyze_sentiment_def
      example_library_def example_scorer_def review_a_def review_b_def)

section \<open>The claims\<close>

text \<open>
  \<^bold>\<open>C1\<close>, as amended. The claim fails on the code: the \<^verbatim>\<open>GET\<close> branch has no handler
  for the \<^verbatim>\<open>ValueError\<close> of \<^verbatim>\<open>datetime.strptime\<close>, which reaches the outer
  \<^verbatim>\<open>except\<close> of line 166. What holds: for every \<^verbatim>\<open>GET\<close> request whose \<^verbatim>\<open>location\<close>
  is absent, empty or allowed and whose \<^verbatim>\<open>start_date\<close> or \<^verbatim>\<open>end_date\<close> has a non-empty
  first value that \<^verbatim>\<open>datetime.strptime(value, '%Y-%m-%d')\<close> rejects, the response has
  status 500 and the body \<^verbatim>\<open>{"error": "Internal server error."}\<close>; the message of the
  failure is not returned, and the reviews are left as they were.
\<close>

theorem malformed_date_is_internal_error:
  assumes "REQUEST_METHOD environ = Some ''GET''"
    and "QUERY_STRING environ = Some qs"
    and "map_option hd (parse_qs (unquote lib) qs ''location'') = location"
    and "truthy location \<longrightarrow> the location \<in> ALLOWED_LOCATIONS"
    and "map_option hd (parse_qs (unquote lib) qs ''start_date'') = Some d
         \<or> map_option hd (parse_qs (unquote lib) qs ''end_date'') = Some d"
    and "d \<noteq> []"
    and "strptime lib d ''%Y-%m-%d'' = Inl ex"
  shows "call lib w environ reviews =
           (\<lparr>status = ''500 Internal Server Error'',
             body = JObj [(''error'', JStr ''Internal server error.'')]\<rparr>,
            reviews)"
proof -
  define start_date where "start_date = map_option hd (parse_qs (unquote lib) qs ''start_date'')"
  define end_date where "end_date = map_option hd (parse_qs (unquote lib) qs ''end_date'')"
  from assms(5) have se: "start_date = Some d \<or> end_date = Some d"
    by (simp only: start_date_def end_date_def)
  have "\<exists>e. (case filter_start_date lib start_date (filter_location location reviews) of
               Inl e \<Rightarrow> Inl e
             | Inr by_start \<Rightarrow> filter_end_date lib end_date by_start) = Inl e"
  proof (cases "start_date = Some d")
    case True
    with assms(6,7) show ?thesis
      by (simp add: filter_start_date_def truthy_def)
  next
    case False
    with se have e: "end_date = Some d" by simp
    show ?thesis
    proof (cases "filter_start_date lib start_date (filter_location location reviews)")
      case (Inl e)
      then show ?thesis by simp
    next
      case (Inr by_start)
      with e assms(6,7) show ?thesis
        by (simp add: filter_end_date_def truthy_def)
    qed
  qed
  then obtain e where "(case filter_start_date lib start_date (filter_location location reviews) of
               Inl e \<Rightarrow> Inl e
             | Inr by_start \<Rightarrow> filter_end_date lib end_date by_start) = Inl e" ..
  moreover from assms(4) have na: "\<not> (truthy location \<and> the location \<notin> ALLOWED_LOCATIONS)"
    by blast
  have "get_branch lib environ reviews =
      (case filter_start_date lib start_date (filter_location location reviews) of
         Inl e \<Rightarrow> Inl e
       | Inr by_start \<Rightarrow>
           (case filter_end_date lib end_date by_start of
              Inl e \<Rightarrow> Inl e
            | Inr filtered_reviews \<Rightarrow>
                Inr \<lparr>status = ''200 OK'',
                     body = JArr (map scored_json
                                    (rank (map (score_review lib) filtered_reviews)))\<rparr>))"
    using assms(2) na
    by (auto simp add: get_branch_def first_value_parse_qs assms(3)
        start_date_def [symmetric] end_date_def [symmetric])
  ultimately have "get_branch lib environ reviews = Inl e"
    by (auto split: sum.splits)
  with assms(1) show ?thesis
    by (simp add: call_def internal_server_error_def error_body_def)
qed

theorem malformed_date_is_internal_error_witness:
  "call example_library example_world
     (get_environ ''location=Denver, Colorado&end_date=2024-13-01'') example_reviews =
     (\<lparr>status = ''500 Internal Server Error'',
       body = JObj [(''error'', JStr ''Internal server error.'')]\<rparr>,
      example_reviews)"
proof -
  let ?qs = "''location=Denver, Colorado&end_date=2024-13-01''"
  have g: "REQUEST_METHOD (get_environ ?qs) = Some ''GET''" "QUERY_STRING (get_environ ?qs) = Some ?qs"
    by (simp_all add: get_environ_def)
  have l: "map_option hd (parse_qs (unquote example_library) ?qs ''location'') = Some ''Denver, Colorado''"
    by (simp add: unquote_example parse_qs_eq parse_qsl_month_13)
  have a: "truthy (Some ''Denver, Colorado'') \<longrightarrow> the (Some ''Denver, Colorado'') \<in> ALLOWED_LOCATIONS"
    by (simp add: ALLOWED_LOCATIONS_def)
  have d: "map_option hd (parse_qs (unquote example_library) ?qs ''start_date'') = Some ''2024-13-01''
         \<or> map_option hd (parse_qs (unquote example_library) ?qs ''end_date'') = Some ''2024-13-01''"
    by (simp add: unquote_example parse_qs_eq parse_qsl_month_13)
  have n: "''2024-13-01'' \<noteq> []" by simp
  have s: "strptime example_library ''2024-13-01'' ''%Y-%m-%d''
     = Inl (ValueError (''time data '' @ [CHR 0x27] @ ''2024-13-01'' @ [CHR 0x27]
                        @ '' does not match format '' @ [CHR 0x27] @ ''%Y-%m-%d'' @ [CHR 0x27]))"
    by (simp add: example_library_def strptime_2024_13_01)
  from malformed_date_is_internal_error [OF g l a d n s] show ?thesis .
qed

text \<open>The request \<^verbatim>\<open>GET ?start_date=notadate\<close>: the answer is 500 with the generic body,
  not 400 with a message about the date.\<close>

theorem malformed_start_date_is_not_400:
  "call example_library example_world (get_environ ''start_date=notadate'') example_reviews =
     (\<lparr>status = ''500 Internal Server Error'',
       body = JObj [(''error'', JStr ''Internal server error.'')]\<rparr>,
      example_reviews)"
  by (simp add: call_def get_branch_def get_environ_def first_value_parse_qs
      unquote_example parse_qs_eq parse_qsl_notadate truthy_def filter_location_def
      filter_start_date_def example_library_def strptime_notadate
      internal_server_error_def error_body_def)

text \<open>
  \<^bold>\<open>C2\<close>, as amended. The claim fails on the code: the inner \<^verbatim>\<open>try\<close> of the
  \<^verbatim>\<open>POST\<close> branch has the handler \<^verbatim>\<open>except Exception as ex\<close> of lines 159-161, so
  no exception of the branch reaches the outer handler. What holds: a \<^verbatim>\<open>POST\<close> request is
  never answered 500; every exception raised in the inner \<^verbatim>\<open>try\<close> (for example by
  \<^verbatim>\<open>int\<close> on \<^verbatim>\<open>CONTENT_LENGTH\<close>, or while the body is read or decoded) is answered
  400 with the body \<^verbatim>\<open>{"error": "Invalid JSON format."}\<close> for a
  \<^verbatim>\<open>json.JSONDecodeError\<close> and \<^verbatim>\<open>{"error": str(ex)}\<close> for any other exception, so the
  text of the exception is returned to the client; the reviews are left as they were.
\<close>

theorem post_failure_is_bad_request:
  assumes "REQUEST_METHOD environ = Some ''POST''"
  shows "status (fst (call lib w environ reviews)) \<in> {''201 Created'', ''400 Bad Request''}
    \<and> (\<forall>ex. post_body lib w environ reviews = Inl ex \<longrightarrow>
          call lib w environ reviews =
            (\<lparr>status = ''400 Bad Request'',
              body = JObj [(''error'', JStr (if is_JSONDecodeError ex then ''Invalid JSON format.''
                                             else str_of ex))]\<rparr>,
             reviews))
    \<and> (\<forall>v ex. CONTENT_LENGTH environ = Some v \<and> py_int lib v = Inl ex \<longrightarrow>
          call lib w environ reviews =
            (\<lparr>status = ''400 Bad Request'',
              body = JObj [(''error'', JStr (if is_JSONDecodeError ex then ''Invalid JSON format.''
                                             else str_of ex))]\<rparr>,
             reviews))
    \<and> (\<forall>v n read_decode ex.
          (CONTENT_LENGTH environ = None \<and> n = 0 \<or> CONTENT_LENGTH environ = Some v \<and> py_int lib v = Inr n)
          \<and> wsgi_input environ = Some read_decode \<and> read_decode n = Inl ex \<longrightarrow>
          call lib w environ reviews =
            (\<lparr>status = ''400 Bad Request'',
              body = JObj [(''error'', JStr (if is_JSONDecodeError ex then ''Invalid JSON format.''
                                             else str_of ex))]\<rparr>,
             reviews))"
proof -
  have c: "call lib w environ reviews = post_branch lib w environ reviews"
    using assms by (simp add: call_def)
  have 1: "status (fst (call lib w environ reviews)) \<in> {''201 Created'', ''400 Bad Request''}"
  proof (cases "post_body lib w environ reviews")
    case (Inl ex)
    then show ?thesis by (simp add: c post_branch_def)
  next
    case (Inr result)
    with post_body_status [OF Inr] show ?thesis
      by (auto simp: c post_branch_def)
  qed
  have 2: "call lib w environ reviews =
            (\<lparr>status = ''400 Bad Request'',
              body = JObj [(''error'', JStr (if is_JSONDecodeError ex then ''Invalid JSON format.''
                                             else str_of ex))]\<rparr>,
             reviews)"
    if "post_body lib w environ reviews = Inl ex" for ex
    using that by (simp add: c post_branch_def error_body_def)
  have 3: "call lib w environ reviews =
            (\<lparr>status = ''400 Bad Request'',
              body = JObj [(''error'', JStr (if is_JSONDecodeError ex then ''Invalid JSON format.''
                                             else str_of ex))]\<rparr>,
             reviews)"
    if "CONTENT_LENGTH environ = Some v \<and> py_int lib v = Inl ex" for v ex
  proof -
    from that have "post_body lib w environ reviews = Inl ex"
      by (simp add: post_body_def)
    then show ?thesis by (rule 2)
  qed
  have 4: "call lib w environ reviews =
            (\<lparr>status = ''400 Bad Request'',
              body = JObj [(''error'', JStr (if is_JSONDecodeError ex then ''Invalid JSON format.''
                                             else str_of ex))]\<rparr>,
             reviews)"
    if "(CONTENT_LENGTH environ = None \<and> n = 0 \<or> CONTENT_LENGTH environ = Some v \<and> py_int lib v = Inr n)
          \<and> wsgi_input environ = Some read_decode \<and> read_decode n = Inl ex" for v n read_decode ex
  proof -
    from that have "post_body lib w environ reviews = Inl ex"
      by (auto simp: post_body_def)
    then show ?thesis by (rule 2)
  qed
  from 1 2 3 4 show ?thesis by blast
qed

theorem post_failure_is_bad_request_witness:
  "call example_library example_world
     (post_environ ''abc'' ''Location=Denver, Colorado&ReviewBody=Great service!'') example_reviews
   = (\<lparr>status = ''400 Bad Request'',
       body = JObj [(''error'',
                     JStr (''invalid literal for int() with base 10: '' @ [CHR 0x27] @ ''abc'' @ [CHR 0x27]))]\<rparr>,
      example_reviews)"
proof -
  let ?e = "post_environ ''abc'' ''Location=Denver, Colorado&ReviewBody=Great service!''"
  have m: "REQUEST_METHOD ?e = Some ''POST''"
    by (simp add: post_environ_def)
  have i: "CONTENT_LENGTH ?e = Some ''abc'' \<and> py_int example_library ''abc''
     = Inl (ValueError (''invalid literal for int() with base 10: '' @ [CHR 0x27] @ ''abc'' @ [CHR 0x27]))"
    by (simp add: post_environ_def example_library_def ascii_int_abc)
  from post_failure_is_bad_request [OF m, of example_library example_world example_reviews] i
  show ?thesis by fastforce
qed

text \<open>A \<^verbatim>\<open>POST\<close> request whose body cannot be read: the answer is 400 with the text of the
  exception, not 500 with the generic body.\<close>

theorem read_failure_is_not_500:
  "call example_library example_world broken_post_environ example_reviews
   = (\<lparr>status = ''400 Bad Request'',
       body = JObj [(''error'', JStr ''[Errno 104] Connection reset by peer'')]\<rparr>,
      example_reviews)"
  by (simp add: call_def post_branch_def post_body_def broken_post_environ_def broken_reader_def
      example_library_def ascii_int_12 error_body_def)



text \<open>
  \<^bold>\<open>C4\<close>. The date bounds are inclusive and all criteria are conjoined. Take a \<^verbatim>\<open>GET\<close>
  request whose \<^verbatim>\<open>location\<close> is absent, empty or allowed and whose dates, where given,
  are parsed by \<^verbatim>\<open>strptime\<close> to \<open>sd\<close> and \<open>ed\<close>, over reviews whose timestamps are
  parsed to \<open>ts review\<close> (the invariant of the data model: every stored \<^verbatim>\<open>Timestamp\<close> can
  be parsed). The response is 200 with the ranking of exactly the reviews that have the
  location asked for, if one is asked for, and a timestamp not before \<open>sd\<close>, if a start date
  is given, and a timestamp not after \<open>ed\<close>, if an end date is given. A review whose
  timestamp equals a bound passes it.
\<close>

theorem date_bounds_are_inclusive:
  assumes "REQUEST_METHOD environ = Some ''GET''"
    and "QUERY_STRING environ = Some qs"
    and "map_option hd (parse_qs (unquote lib) qs ''location'') = location"
    and "map_option hd (parse_qs (unquote lib) qs ''start_date'') = start_date"
    and "map_option hd (parse_qs (unquote lib) qs ''end_date'') = end_date"
    and "truthy location \<longrightarrow> the location \<in> ALLOWED_LOCATIONS"
    and "truthy start_date \<longrightarrow> strptime lib (the start_date) ''%Y-%m-%d'' = Inr sd"
    and "truthy end_date \<longrightarrow> strptime lib (the end_date) ''%Y-%m-%d'' = Inr ed"
    and "\<forall>review \<in> set reviews. strptime lib (Timestamp review) TIMESTAMP_FORMAT = Inr (ts review)"
  shows "call lib w environ reviews =
           (\<lparr>status = ''200 OK'',
             body = JArr (map scored_json (rank (map (score_review lib)
                      (filter (\<lambda>review. (truthy location \<longrightarrow> Location review = the location)
                                       \<and> (truthy start_date \<longrightarrow> dt_le sd (ts review))
                                       \<and> (truthy end_date \<longrightarrow> dt_le (ts review) ed))
                         reviews))))\<rparr>,
            reviews)
    \<and> (\<forall>review \<in> set reviews. ts review = sd \<longrightarrow> dt_le sd (ts review))
    \<and> (\<forall>review \<in> set reviews. ts review = ed \<longrightarrow> dt_le (ts review) ed)"
proof -
  have l: "filter_location location reviews
             = filter (\<lambda>review. truthy location \<longrightarrow> Location review = the location) reviews"
    by (simp add: filter_location_def)
  have t: "\<forall>review \<in> set (filter_location location reviews).
             strptime lib (Timestamp review) TIMESTAMP_FORMAT = Inr (ts review)"
    using assms(9) by (simp add: l)
  have s: "filter_start_date lib start_date (filter_location location reviews)
             = Inr (filter (\<lambda>review. truthy start_date \<longrightarrow> dt_le sd (ts review))
                      (filter_location location reviews))"
    by (rule filter_start_date_parsed [OF assms(7) t])
  have t': "\<forall>review \<in> set (filter (\<lambda>review. truthy start_date \<longrightarrow> dt_le sd (ts review))
                                (filter_location location reviews)).
             strptime lib (Timestamp review) TIMESTAMP_FORMAT = Inr (ts review)"
    using t by simp
  note e = filter_end_date_parsed [OF assms(8) t']
  from assms(6) have na: "\<not> (truthy location \<and> the location \<notin> ALLOWED_LOCATIONS)"
    by blast
  have "get_branch lib environ reviews =
          Inr \<lparr>status = ''200 OK'',
               body = JArr (map scored_json (rank (map (score_review lib)
                      (filter (\<lambda>review. truthy end_date \<longrightarrow> dt_le (ts review) ed)
                         (filter (\<lambda>review. truthy start_date \<longrightarrow> dt_le sd (ts review))
                            (filter_location location reviews))))))\<rparr>"
    using assms(2) na
    by (auto simp add: get_branch_def first_value_parse_qs assms(3,4,5) s e)
  with assms(1) show ?thesis
    by (simp add: call_def dt_le_refl l conj_ac)
qed

theorem date_bounds_are_inclusive_witness:
  "call example_library example_world
     (get_environ ''location=Denver, Colorado&start_date=2024-01-01&end_date=2024-01-31'')
     example_reviews
   = (\<lparr>status = ''200 OK'',
       body = JArr (map scored_json (map (score_review example_library) [review_b, review_a]))\<rparr>,
      example_reviews)"
proof -
  let ?qs = "''location=Denver, Colorado&start_date=2024-01-01&end_date=2024-01-31''"
  let ?ts = "\<lambda>review. projr (ascii_strptime (Timestamp review) TIMESTAMP_FORMAT)"
  let ?sd = "\<lparr>year = 2024, month = 1, day = 1, hour = 0, minute = 0, second = 0\<rparr>"
  let ?ed = "\<lparr>year = 2024, month = 1, day = 31, hour = 0, minute = 0, second = 0\<rparr>"
  have g: "REQUEST_METHOD (get_environ ?qs) = Some ''GET''" "QUERY_STRING (get_environ ?qs) = Some ?qs"
    by (simp_all add: get_environ_def)
  have p: "map_option hd (parse_qs (unquote example_library) ?qs ''location'') = Some ''Denver, Colorado''"
    "map_option hd (parse_qs (unquote example_library) ?qs ''start_date'') = Some ''2024-01-01''"
    "map_option hd (parse_qs (unquote example_library) ?qs ''end_date'') = Some ''2024-01-31''"
    by (simp_all add: unquote_example parse_qs_eq parse_qsl_january)
  have a: "truthy (Some ''Denver, Colorado'') \<longrightarrow> the (Some ''Denver, Colorado'') \<in> ALLOWED_LOCATIONS"
    by (simp add: ALLOWED_LOCATIONS_def)
  have s: "truthy (Some ''2024-01-01'') \<longrightarrow> strptime example_library (the (Some ''2024-01-01'')) ''%Y-%m-%d'' = Inr ?sd"
    by (simp add: example_library_def strptime_2024_01_01)
  have e: "truthy (Some ''2024-01-31'') \<longrightarrow> strptime example_library (the (Some ''2024-01-31'')) ''%Y-%m-%d'' = Inr ?ed"
    by (simp add: example_library_def strptime_2024_01_31)
  have ts: "?ts review_a = \<lparr>year = 2024, month = 1, day = 1, hour = 0, minute = 0, second = 0\<rparr>"
    "?ts review_b = \<lparr>year = 2024, month = 1, day = 31, hour = 0, minute = 0, second = 0\<rparr>"
    "?ts review_c = \<lparr>year = 2024, month = 1, day = 15, hour = 8, minute = 30, second = 0\<rparr>"
    "?ts review_d = \<lparr>year = 2024, month = 1, day = 31, hour = 0, minute = 0, second = 1\<rparr>"
    by (simp_all add: review_a_def review_b_def review_c_def review_d_def
        strptime_review_a strptime_review_b strptime_review_c strptime_review_d)
  have t: "\<forall>review \<in> set example_reviews.
             strptime example_library (Timestamp review) TIMESTAMP_FORMAT = Inr (?ts review)"
    by (simp add: example_reviews_def example_library_def
        review_a_def review_b_def review_c_def review_d_def
        strptime_review_a strptime_review_b strptime_review_c strptime_review_d)
  have f: "filter (\<lambda>review. (truthy (Some ''Denver, Colorado'') \<longrightarrow> Location review = the (Some ''Denver, Colorado''))
                          \<and> (truthy (Some ''2024-01-01'') \<longrightarrow> dt_le ?sd (?ts review))
                          \<and> (truthy (Some ''2024-01-31'') \<longrightarrow> dt_le (?ts review) ?ed))
             example_reviews = [review_a, review_b]"
    unfolding example_reviews_def
    by (simp add: ts truthy_def dt_le_def dt_tuple_def)
       (simp add: review_a_def review_b_def review_c_def review_d_def)
  from date_bounds_are_inclusive [OF g p a s e t, of example_world]
  show ?thesis
    by (simp only: f rank_january)
qed

text \<open>
  \<^bold>\<open>C5\<close>, as amended. As the claim words it, it fails for a \<^verbatim>\<open>location\<close> parameter that
  is present with an empty value: \<^verbatim>\<open>parse_qs\<close> drops the blank value and line 80 tests
  the truth of the value, so \<^verbatim>\<open>GET ?location=\<close> is answered 200 with the reviews
  unfiltered although the empty string is not in the allow-list.
  What holds: for every \<^verbatim>\<open>GET\<close> request whose \<^verbatim>\<open>location\<close> parameter has a non-empty
  first value that is not in the allow-list, the request fails instead of returning zero
  matches: the status is 400 and the body is exactly
  \<^verbatim>\<open>{"error": "'<value>' is not an allowed location."}\<close> with that value; the reviews are
  left as they were.
\<close>

theorem get_disallowed_location:
  assumes "REQUEST_METHOD environ = Some ''GET''"
    and "QUERY_STRING environ = Some qs"
    and "parse_qs (unquote lib) qs ''location'' = Some (location # others)"
    and "location \<noteq> []"
    and "location \<notin> ALLOWED_LOCATIONS"
  shows "call lib w environ reviews =
           (\<lparr>status = ''400 Bad Request'',
             body = JObj [(''error'',
                           JStr ([CHR 0x27] @ location @ [CHR 0x27] @ '' is not an allowed location.''))]\<rparr>,
            reviews)"
  using assms
  by (simp add: call_def get_branch_def first_value_parse_qs truthy_def
      error_body_def not_allowed_message_def)

theorem get_disallowed_location_witness:
  "call example_library example_world (get_environ ''location=Nowhere, Nowhere'') example_reviews =
     (\<lparr>status = ''400 Bad Request'',
       body = JObj [(''error'',
                     JStr (CHR 0x27 # ''Nowhere, Nowhere'' @ CHR 0x27 # '' is not an allowed location.''))]\<rparr>,
      example_reviews)"
  using get_disallowed_location [of "get_environ ''location=Nowhere, Nowhere''"
      "''location=Nowhere, Nowhere''" example_library "''Nowhere, Nowhere''" "[]"
      example_world example_reviews]
  by (simp add: get_environ_def unquote_example parse_qs_eq parse_qsl_nowhere ALLOWED_LOCATIONS_def)

text \<open>The request \<^verbatim>\<open>GET ?location=\<close> over a list of one review: the empty string is not
  an allowed location, and the answer is 200 with that review.\<close>

theorem blank_location_is_served:
  "[] \<notin> ALLOWED_LOCATIONS
   \<and> call example_library example_world (get_environ ''location='') [review_a]
     = (\<lparr>status = ''200 OK'',
         body = JArr [JObj [(''ReviewId'', JStr ''a''),
                            (''Location'', JStr ''Denver, Colorado''),
                            (''Timestamp'', JStr ''2024-01-01 00:00:00''),
                            (''ReviewBody'', JStr ''bad''),
                            (''sentiment'', JObj [(''neg'', JNum 1), (''neu'', JNum 0),
                                                  (''pos'', JNum 0), (''compound'', JNum (-0.5423))])]]\<rparr>,
        [review_a])"
  by (simp add: ALLOWED_LOCATIONS_def call_def get_branch_def get_environ_def
      first_value_parse_qs parse_qs_eq parse_qsl_blank_location truthy_def
      filter_location_def filter_start_date_def filter_end_date_def
      score_review_def analyze_sentiment_def example_library_def example_scorer_def
      rank_def sorted_reverse_def scored_json_def sentiment_json_def review_a_def)



text \<open>
  \<^bold>\<open>C7\<close>. The ranking is stable. A \<^verbatim>\<open>GET\<close> request answered 200 returns the ranking
  of the scored reviews that passed the filters, which are reviews of the list in the order
  of the list; and for every compound score, the reviews with that score stand in the
  ranking in the order they had before the sort.
\<close>

theorem ranking_is_stable:
  assumes "REQUEST_METHOD environ = Some ''GET''"
    and "call lib w environ reviews = (r, reviews')"
    and "status r = ''200 OK''"
  shows "\<exists>P. body r = JArr (map scored_json (rank (map (score_review lib) (filter P reviews))))
           \<and> (\<forall>c. filter (\<lambda>x. compound (sr_sentiment x) = c)
                      (rank (map (score_review lib) (filter P reviews)))
                  = filter (\<lambda>x. compound (sr_sentiment x) = c)
                      (map (score_review lib) (filter P reviews)))"
proof -
  from assms(1,2) have "get_branch lib environ reviews = Inr r"
    using assms(3)
    by (auto simp: call_def internal_server_error_def split: sum.splits)
  from get_branch_ok [OF this assms(3)] show ?thesis
    by (auto simp: rank_def sorted_reverse_stable)
qed

theorem ranking_is_stable_witness:
  "\<exists>P. body (fst (call example_library example_world (get_environ []) example_reviews))
          = JArr (map scored_json (rank (map (score_review example_library) (filter P example_reviews))))
       \<and> (\<forall>c. filter (\<lambda>x. compound (sr_sentiment x) = c)
                  (rank (map (score_review example_library) (filter P example_reviews)))
              = filter (\<lambda>x. compound (sr_sentiment x) = c)
                  (map (score_review example_library) (filter P example_reviews)))
       \<and> rank (map (score_review example_library) example_reviews)
           = map (score_review example_library) [review_c, review_b, review_d, review_a]"
proof -
  let ?c = "call example_library example_world (get_environ []) example_reviews"
  have s: "status (fst ?c) = ''200 OK''"
    by (simp add: no_criteria get_environ_def parse_qs_eq parse_qsl_Nil)
  from ranking_is_stable [of "get_environ []" example_library example_world example_reviews
      "fst ?c" "snd ?c"] s
  show ?thesis by (simp add: get_environ_def rank_example)
qed



text \<open>
  \<^bold>\<open>C9\<close>. A request answered with status 400 leaves the list of reviews unchanged: every
  400 response of the handler (disallowed location in \<^verbatim>\<open>GET\<close> or \<^verbatim>\<open>POST\<close>, missing
  field in \<^verbatim>\<open>POST\<close>, and the 400 of the handler of the inner \<^verbatim>\<open>try\<close>) is produced
  before \<^verbatim>\<open>self.reviews.append\<close> is reached.
\<close>

theorem validation_failure_leaves_store:
  assumes "call lib w environ reviews = (r, reviews')"
    and "status r = ''400 Bad Request''"
  shows "reviews' = reviews"
proof (cases "REQUEST_METHOD environ")
  case None
  with assms show ?thesis by (simp add: call_def)
next
  case (Some m)
  consider "m = ''GET''" | "m \<noteq> ''GET''" "m = ''POST''"
    | "m \<noteq> ''GET''" "m \<noteq> ''POST''"
    by blast
  then show ?thesis
  proof cases
    case 1
    with Some assms(1) show ?thesis
      by (auto simp: call_def split: sum.splits)
  next
    case 2
    with Some assms(1) have pb: "post_branch lib w environ reviews = (r, reviews')"
      by (simp add: call_def)
    show ?thesis
    proof (cases "post_body lib w environ reviews")
      case (Inl ex)
      with pb show ?thesis
        by (auto simp: post_branch_def split: if_splits)
    next
      case (Inr result)
      with pb have res: "result = (r, reviews')"
        by (simp add: post_branch_def)
      from Inr assms(2) show ?thesis
        unfolding res post_body_def
        by (auto simp: Let_def split: sum.splits option.splits if_splits)
    qed
  next
    case 3
    with Some assms(1) show ?thesis
      by (auto simp: call_def)
  qed
qed

theorem validation_failure_leaves_store_witness:
  "status (fst (call example_library example_world (post_environ ''0'' []) example_reviews))
     = ''400 Bad Request''
   \<and> snd (call example_library example_world (post_environ ''0'' []) example_reviews)
     = example_reviews"
proof -
  let ?c = "call example_library example_world (post_environ ''0'' []) example_reviews"
  have s: "status (fst ?c) = ''400 Bad Request''"
    by (simp add: call_def post_branch_def post_body_def post_environ_def body_reader_def
        example_library_def ascii_int_0 first_value_parse_qs parse_qs_eq parse_qsl_Nil truthy_def)
  from validation_failure_leaves_store [of example_library example_world "post_environ ''0'' []"
      example_reviews "fst ?c" "snd ?c"] s
  show ?thesis by simp
qed

text \<open>
  \<^bold>\<open>C10\<close>. A \<^verbatim>\<open>location\<close>, \<^verbatim>\<open>start_date\<close> or \<^verbatim>\<open>end_date\<close> parameter that is present
  with an empty value is treated as if it were absent: wherever the field \<^verbatim>\<open>k=\<close> stands
  in the query string (alone, first, last or between other fields), the request is answered
  exactly as the request without that field, so no error is raised for it and nothing is
  filtered by it, although the empty string is not in the allow-list.
\<close>

theorem blank_criterion_is_absent:
  assumes "k \<in> {''location'', ''start_date'', ''end_date''}"
  shows "[] \<notin> ALLOWED_LOCATIONS
    \<and> call lib w (environ\<lparr>REQUEST_METHOD := Some ''GET'', QUERY_STRING := Some (k @ ''='')\<rparr>) reviews
      = call lib w (environ\<lparr>REQUEST_METHOD := Some ''GET'', QUERY_STRING := Some []\<rparr>) reviews
    \<and> call lib w (environ\<lparr>REQUEST_METHOD := Some ''GET'', QUERY_STRING := Some (k @ ''=&'' @ b)\<rparr>) reviews
      = call lib w (environ\<lparr>REQUEST_METHOD := Some ''GET'', QUERY_STRING := Some b\<rparr>) reviews
    \<and> call lib w (environ\<lparr>REQUEST_METHOD := Some ''GET'', QUERY_STRING := Some (a @ ''&'' @ k @ ''='')\<rparr>) reviews
      = call lib w (environ\<lparr>REQUEST_METHOD := Some ''GET'', QUERY_STRING := Some a\<rparr>) reviews
    \<and> call lib w (environ\<lparr>REQUEST_METHOD := Some ''GET'', QUERY_STRING := Some (a @ ''&'' @ k @ ''=&'' @ b)\<rparr>) reviews
      = call lib w (environ\<lparr>REQUEST_METHOD := Some ''GET'', QUERY_STRING := Some (a @ ''&'' @ b)\<rparr>) reviews"
proof -
  from assms have k: "CHR ''='' \<notin> set k" "CHR ''&'' \<notin> set k"
    by auto
  have blank: "parse_qsl (unquote lib) (k @ ''='') = []"
    by (rule parse_qsl_blank [OF k])
  have 0: "[] \<notin> ALLOWED_LOCATIONS"
    by (simp add: ALLOWED_LOCATIONS_def)
  have "parse_qsl (unquote lib) (k @ ''='') = parse_qsl (unquote lib) []"
    by (simp add: blank parse_qsl_Nil)
  note 1 = get_reads_parse_qs [OF this]
  have "parse_qsl (unquote lib) (k @ ''=&'' @ b) = parse_qsl (unquote lib) b"
    using parse_qsl_append [of "unquote lib" "k @ ''=''" b] by (simp add: blank)
  note 2 = get_reads_parse_qs [OF this]
  have "parse_qsl (unquote lib) (a @ ''&'' @ k @ ''='') = parse_qsl (unquote lib) a"
    using parse_qsl_append [of "unquote lib" a "k @ ''=''"] by (simp add: blank)
  note 3 = get_reads_parse_qs [OF this]
  have "parse_qsl (unquote lib) (a @ ''&'' @ k @ ''=&'' @ b) = parse_qsl (unquote lib) (a @ ''&'' @ b)"
    using parse_qsl_append [of "unquote lib" a "(k @ ''='') @ ''&'' @ b"]
      parse_qsl_append [of "unquote lib" "k @ ''=''" b]
      parse_qsl_append [of "unquote lib" a b]
    by (simp add: blank)
  note 4 = get_reads_parse_qs [OF this]
  from 0 1 2 3 4 show ?thesis by blast
qed

theorem blank_criterion_is_absent_witness:
  "call example_library example_world (get_environ ''location='') example_reviews
     = call example_library example_world (get_environ []) example_reviews
   \<and> call example_library example_world
        (get_environ ''start_date=2024-01-15&location=&end_date=2024-01-31'') example_reviews
     = call example_library example_world
        (get_environ ''start_date=2024-01-15&end_date=2024-01-31'') example_reviews"
  using blank_criterion_is_absent [of "''location''" example_library example_world
      "get_environ []" example_reviews "''end_date=2024-01-31''" "''start_date=2024-01-15''"]
  by (simp add: get_environ_def)

end
